theory Spec2Isabelle
  imports Complex_Main
begin

section \<open>VRM Material Hide Shape Key: the data model\<close>

text \<open>
  The addon (\<^verbatim>\<open>vrm_hidematblenshape.py\<close>) has two operators on the active object of
  the host (Blender): \<^verbatim>\<open>SyncMaterialsOperator\<close>, which rebuilds the material checklist
  \<^verbatim>\<open>obj.vrm_hide_materials\<close> from the material slots, and \<^verbatim>\<open>CreateHideOperator\<close>,
  which creates the shape keys "Basis" and the hide key.

  The host's types are not part of the addon. What the addon reads and writes of them
  is kept as plain data: an object is a record of its type tag, its mesh data (vertex
  positions, faces, material slots, shape keys) and the addon's own property collection.
\<close>

text \<open>\<^verbatim>\<open>VRMHideMaterialItem\<close>: a material pointer (possibly unset) and the checkbox.\<close>

record 'm VRMHideMaterialItem =
  material :: "'m option"
  use_hide :: bool

text \<open>A face as \<^verbatim>\<open>bmesh\<close> presents it: \<^verbatim>\<open>face.material_index\<close> and the indices of
  \<^verbatim>\<open>face.verts\<close>.\<close>

record Face =
  material_index :: nat
  verts :: "nat list"

text \<open>
  A Python \<^verbatim>\<open>str\<close> is the list of its code points, so that every character the
  user can type into a text field has its place; \<open>str\<close> reads a literal of the source.
\<close>

type_synonym py_str = "nat list"

definition str :: "string \<Rightarrow> py_str" where
  "str s = map of_char s"

text \<open>A shape key block: its name, its stored per-vertex positions and its value.\<close>

record 'v ShapeKey =
  sk_name :: py_str
  sk_data :: "'v list"
  sk_value :: real

text \<open>
  The object. \<open>obj_type\<close> is \<^verbatim>\<open>obj.type\<close>; \<open>vertices\<close> holds \<^verbatim>\<open>v.co\<close> for every
  \<^verbatim>\<open>v\<close> of \<^verbatim>\<open>obj.data.vertices\<close>, in index order; \<open>faces\<close> is what \<^verbatim>\<open>bm.faces\<close>
  yields after \<^verbatim>\<open>bm.from_mesh(obj.data)\<close>; \<open>materials\<close> is \<^verbatim>\<open>obj.data.materials\<close>,
  where \<open>None\<close> is an empty slot; \<open>shape_keys\<close> is the list of key blocks, empty when
  \<^verbatim>\<open>obj.data.shape_keys\<close> is \<^verbatim>\<open>None\<close>.
\<close>

record ('v, 'm) Object =
  obj_type :: string
  vertices :: "'v list"
  faces :: "Face list"
  materials :: "'m option list"
  shape_keys :: "'v ShapeKey list"
  vrm_hide_materials :: "'m VRMHideMaterialItem list"

text \<open>The items of the \<^verbatim>\<open>EnumProperty\<close> \<^verbatim>\<open>hide_shrink_center\<close>.\<close>

datatype CenterMode = CENTROID | ORIGIN

record Scene =
  hide_shape_key_name :: py_str
  hide_shrink_factor :: real
  hide_shrink_center :: CenterMode

text \<open>
  The arithmetic of \<^verbatim>\<open>mathutils.Vector\<close> and the iteration order of a Python \<^verbatim>\<open>set\<close>
  belong to the host and to the interpreter; the addon only calls them. They are taken
  as parameters, so that what is proved of the operators holds however the host rounds
  and in whatever order it visits a set:
  \<^item> \<open>vzero\<close> is \<^verbatim>\<open>Vector()\<close>, which is also the value of \<^verbatim>\<open>Vector((0, 0, 0))\<close>;
  \<^item> \<open>vadd\<close>, \<open>vsub\<close> are \<^verbatim>\<open>+\<close> and \<^verbatim>\<open>-\<close> on vectors;
  \<^item> \<open>vscale\<close> is \<^verbatim>\<open>vector * float\<close>;
  \<^item> \<open>vdiv\<close> is \<^verbatim>\<open>vector / int\<close>, called with a non-zero divisor only;
  \<^item> \<open>set_iter\<close> lists a set of vertex indices in the order in which \<^verbatim>\<open>for i in s\<close>
    visits it;
  \<^item> \<open>unique_name\<close> is the name that the host gives to a new shape key, from the names of
    the keys that exist and the name that \<^verbatim>\<open>shape_key_add\<close> is called with: the host
    alters a name that is in use already or is too long for it.
\<close>

record 'v host =
  vzero :: 'v
  vadd :: "'v \<Rightarrow> 'v \<Rightarrow> 'v"
  vsub :: "'v \<Rightarrow> 'v \<Rightarrow> 'v"
  vscale :: "'v \<Rightarrow> real \<Rightarrow> 'v"
  vdiv :: "'v \<Rightarrow> nat \<Rightarrow> 'v"
  set_iter :: "nat set \<Rightarrow> nat list"
  unique_name :: "py_str list \<Rightarrow> py_str \<Rightarrow> py_str"

text \<open>What an operator hands back: the set it returns and the message it reported, or
  the Python exception that left it.\<close>

datatype ret = CANCELLED | FINISHED

datatype level = ERROR | INFO

datatype exn = IndexError | ZeroDivisionError

datatype outcome = Return ret "level \<times> py_str" | Raised exn

section \<open>Python helpers\<close>

text \<open>\<^verbatim>\<open>xs[i]\<close> for a non-negative index.\<close>

definition py_index :: "'a list \<Rightarrow> nat \<Rightarrow> exn + 'a" where
  "py_index xs i = (if i < length xs then Inr (xs ! i) else Inl IndexError)"

text \<open>\<^verbatim>\<open>[xs[i] for i in js]\<close>: the first index out of range raises.\<close>

fun index_all :: "'a list \<Rightarrow> nat list \<Rightarrow> exn + 'a list" where
  "index_all xs [] = Inr []"
| "index_all xs (i # js) =
     (case py_index xs i of
        Inl e \<Rightarrow> Inl e
      | Inr x \<Rightarrow> (case index_all xs js of Inl e \<Rightarrow> Inl e | Inr ys \<Rightarrow> Inr (x # ys)))"

text \<open>
  \<^verbatim>\<open>str.isspace\<close> of a code point, which is what \<^verbatim>\<open>str.strip\<close> removes: tab to
  carriage return (9 to 13), the separators 28 to 31, space (32), next line (133),
  no-break space (160), the ogham space mark (5760), en quad to hair space (8192 to
  8202), line and paragraph separator (8232, 8233), the narrow no-break space (8239), the
  medium mathematical space (8287) and the ideographic space (12288).
\<close>

definition isspace :: "nat \<Rightarrow> bool" where
  "isspace n =
     ((9 \<le> n \<and> n \<le> 13) \<or> (28 \<le> n \<and> n \<le> 32) \<or> n = 133 \<or> n = 160 \<or> n = 5760 \<or>
      (8192 \<le> n \<and> n \<le> 8202) \<or> n = 8232 \<or> n = 8233 \<or> n = 8239 \<or> n = 8287 \<or>
      n = 12288)"

text \<open>\<^verbatim>\<open>s.strip()\<close>: whitespace removed from both ends.\<close>

definition strip :: "py_str \<Rightarrow> py_str" where
  "strip s = rev (dropWhile isspace (rev (dropWhile isspace s)))"

text \<open>\<^verbatim>\<open>str(n)\<close> for a length: the decimal digits.\<close>

definition digit :: "nat \<Rightarrow> char" where
  "digit d = ''0123456789'' ! d"

function str_nat :: "nat \<Rightarrow> string" where
  "str_nat n = (if n < 10 then [digit n] else str_nat (n div 10) @ [digit (n mod 10)])"
  by pat_completeness auto
termination
  by (relation "measure id") auto

declare str_nat.simps [simp del]

section \<open>Refreshing the material list\<close>

text \<open>
  \<^verbatim>\<open>sync_material_list(obj)\<close>: nothing happens without a mesh object; otherwise the
  collection is cleared and one item is added per non-empty slot, in slot order.
\<close>

definition add_item :: "'m option \<Rightarrow> ('v, 'm) Object \<Rightarrow> ('v, 'm) Object" where
  "add_item mat obj =
     (case mat of
        None \<Rightarrow> obj
      | Some m \<Rightarrow>
          obj\<lparr>vrm_hide_materials :=
                vrm_hide_materials obj @ [\<lparr>material = Some m, use_hide = True\<rparr>]\<rparr>)"

definition sync_material_list :: "('v, 'm) Object option \<Rightarrow> ('v, 'm) Object option" where
  "sync_material_list ob =
     (case ob of
        None \<Rightarrow> None
      | Some obj \<Rightarrow>
          if obj_type obj \<noteq> ''MESH'' then Some obj
          else Some (fold add_item (materials obj) (obj\<lparr>vrm_hide_materials := []\<rparr>)))"

text \<open>\<^verbatim>\<open>SyncMaterialsOperator.execute\<close>, on \<^verbatim>\<open>context.active_object\<close>.\<close>

definition SyncMaterialsOperator_execute ::
    "('v, 'm) Object option \<Rightarrow> outcome \<times> ('v, 'm) Object option" where
  "SyncMaterialsOperator_execute active_object =
     (case active_object of
        None \<Rightarrow> (Return CANCELLED (ERROR, str ''Select a mesh object.''), None)
      | Some obj \<Rightarrow>
          if obj_type obj \<noteq> ''MESH''
          then (Return CANCELLED (ERROR, str ''Select a mesh object.''), Some obj)
          else
            (case sync_material_list (Some obj) of
               None \<Rightarrow> (Return CANCELLED (ERROR, str ''Select a mesh object.''), None)
             | Some obj' \<Rightarrow>
                 (Return FINISHED
                    (INFO, str ''Material list updated: ''
                           @ str (str_nat (length (vrm_hide_materials obj')))
                           @ str '' materials found''),
                  Some obj')))"

section \<open>Creating the hide shape key\<close>

text \<open>\<^verbatim>\<open>[i for i, item in enumerate(items) if item.use_hide and item.material]\<close>\<close>

definition checked_indices :: "'m VRMHideMaterialItem list \<Rightarrow> nat list" where
  "checked_indices items =
     map fst (filter (\<lambda>(i, item). use_hide item \<and> material item \<noteq> None)
                     (enumerate 0 items))"

text \<open>The loop over \<^verbatim>\<open>bm.faces\<close> that fills the set \<^verbatim>\<open>affected_verts\<close>.\<close>

definition affected_verts :: "Face list \<Rightarrow> nat list \<Rightarrow> nat set" where
  "affected_verts fs checked =
     fold (\<lambda>face acc.
             if material_index face \<in> set checked then fold insert (verts face) acc
             else acc)
          fs {}"

text \<open>\<^verbatim>\<open>[v.co.copy() for v in obj.data.vertices]\<close>\<close>

definition orig_cos :: "('v, 'm) Object \<Rightarrow> 'v list" where
  "orig_cos obj = map (\<lambda>co. co) (vertices obj)"

text \<open>
  The shrink centre. In \<^verbatim>\<open>CENTROID\<close> mode the positions of the affected vertices are
  collected in the set's iteration order, summed from \<^verbatim>\<open>Vector()\<close> on, left to right,
  and divided by their number.
\<close>

definition center :: "'v host \<Rightarrow> CenterMode \<Rightarrow> 'v list \<Rightarrow> nat set \<Rightarrow> exn + 'v" where
  "center h center_mode orig affected =
     (if center_mode = CENTROID then
        (case index_all orig (set_iter h affected) of
           Inl e \<Rightarrow> Inl e
         | Inr aff_cos \<Rightarrow>
             if length aff_cos = 0 then Inl ZeroDivisionError
             else Inr (vdiv h (foldl (vadd h) (vzero h) aff_cos) (length aff_cos)))
      else Inr (vzero h))"

text \<open>
  The loop \<^verbatim>\<open>for i in affected_verts\<close> over the copy \<^verbatim>\<open>shrunk_cos = orig_cos[:]\<close>: the
  direction is read from \<^verbatim>\<open>orig_cos\<close>, the result is stored in the copy.
\<close>

fun shrink_loop ::
    "'v host \<Rightarrow> 'v list \<Rightarrow> 'v \<Rightarrow> real \<Rightarrow> nat list \<Rightarrow> 'v list \<Rightarrow> exn + 'v list" where
  "shrink_loop h orig c factor [] shrunk = Inr shrunk"
| "shrink_loop h orig c factor (i # js) shrunk =
     (case py_index orig i of
        Inl e \<Rightarrow> Inl e
      | Inr co \<Rightarrow>
          (let direction = vsub h co c
           in shrink_loop h orig c factor js
                (shrunk[i := vadd h c (vscale h direction factor)])))"

definition shrunk_cos ::
    "'v host \<Rightarrow> 'v list \<Rightarrow> 'v \<Rightarrow> real \<Rightarrow> nat set \<Rightarrow> exn + 'v list" where
  "shrunk_cos h orig c factor affected =
     shrink_loop h orig c factor (set_iter h affected) orig"

text \<open>
  Modelled from the spec: \<^verbatim>\<open>obj.shape_key_add(name=..., from_mix=False)\<close> is the
  host's; the spec says that it creates a key "capturing" the mesh's live positions.
  The new block is appended with the current vertex positions as its data and the value
  0. The spec is silent on its name: it is the name the host makes of the name asked
  for, \<open>unique_name\<close>.
\<close>

definition shape_key_add :: "'v host \<Rightarrow> ('v, 'm) Object \<Rightarrow> py_str \<Rightarrow> ('v, 'm) Object" where
  "shape_key_add h obj nm =
     obj\<lparr>shape_keys :=
           shape_keys obj
           @ [\<lparr>sk_name = unique_name h (map sk_name (shape_keys obj)) nm,
               sk_data = vertices obj, sk_value = 0\<rparr>]\<rparr>"

text \<open>\<^verbatim>\<open>for i, v in enumerate(obj.data.vertices): v.co = cs[i]\<close>. The index \<open>i\<close> is
  below the number of vertices, which is the length of both lists written from.\<close>

definition write_cos :: "'v list \<Rightarrow> ('v, 'm) Object \<Rightarrow> ('v, 'm) Object" where
  "write_cos cs obj =
     obj\<lparr>vertices := map (\<lambda>(i, v). cs ! i) (enumerate 0 (vertices obj))\<rparr>"

text \<open>\<^verbatim>\<open>hide_sk.value = 0.0\<close> on the block that was added last.\<close>

definition set_last_value :: "real \<Rightarrow> ('v, 'm) Object \<Rightarrow> ('v, 'm) Object" where
  "set_last_value x obj =
     obj\<lparr>shape_keys :=
           (shape_keys obj)[length (shape_keys obj) - 1 :=
              (shape_keys obj ! (length (shape_keys obj) - 1))\<lparr>sk_value := x\<rparr>]\<rparr>"

text \<open>\<^verbatim>\<open>CreateHideOperator.execute\<close>, on \<^verbatim>\<open>context.scene\<close> and
  \<^verbatim>\<open>context.active_object\<close>.\<close>

definition CreateHideOperator_execute ::
    "'v host \<Rightarrow> Scene \<Rightarrow> ('v, 'm) Object option \<Rightarrow> outcome \<times> ('v, 'm) Object option" where
  "CreateHideOperator_execute h scene active_object =
     (case active_object of
        None \<Rightarrow> (Return CANCELLED (ERROR, str ''Select a mesh object.''), None)
      | Some obj \<Rightarrow>
          if obj_type obj \<noteq> ''MESH''
          then (Return CANCELLED (ERROR, str ''Select a mesh object.''), Some obj)
          else if shape_keys obj \<noteq> []
          then (Return CANCELLED
                  (ERROR, str ''Object already has shape keys. Remove them first (this addon resets the basis).''),
                Some obj)
          else
            (let checked = checked_indices (vrm_hide_materials obj) in
             if checked = []
             then (Return CANCELLED (ERROR, str ''No materials selected for hide.''), Some obj)
             else
               (let key_name0 = strip (hide_shape_key_name scene);
                    key_name = (if key_name0 = [] then str ''Hidden'' else key_name0);
                    factor = hide_shrink_factor scene;
                    center_mode = hide_shrink_center scene;
                    affected = affected_verts (faces obj) checked in
                if affected = {}
                then (Return CANCELLED
                        (ERROR, str ''No vertices found for selected materials.''),
                      Some obj)
                else
                  (let orig = orig_cos obj in
                   case center h center_mode orig affected of
                     Inl e \<Rightarrow> (Raised e, Some obj)
                   | Inr c \<Rightarrow>
                       (case shrunk_cos h orig c factor affected of
                          Inl e \<Rightarrow> (Raised e, Some obj)
                        | Inr shrunk \<Rightarrow>
                            (let obj1 = shape_key_add h obj (str ''Basis'');
                                 obj2 = write_cos shrunk obj1;
                                 obj3 = shape_key_add h obj2 key_name;
                                 obj4 = set_last_value 0 obj3;
                                 obj5 = write_cos orig obj4
                             in (Return FINISHED
                                   (INFO, str ''Hide shape key '' @ [of_char (CHR 0x27)]
                                          @ key_name @ [of_char (CHR 0x27)]
                                          @ str '' created! 0 = visible/normal, 1 = hidden/shrunk.''),
                                 Some obj5)))))))"

section \<open>The claim's reading of the checked slots\<close>

text \<open>
  This definition follows the words of the claim, not the code: the slot indices of the
  materials that the user has checked are the slots whose material is the material of
  a selector entry with \<open>use_hide\<close> set.
\<close>

definition checked_material_slots ::
    "'m option list \<Rightarrow> 'm VRMHideMaterialItem list \<Rightarrow> nat set" where
  "checked_material_slots slots items =
     {i. i < length slots \<and> slots ! i \<in> set (map material (filter use_hide items))}"

section \<open>Sample hosts and meshes\<close>

text \<open>
  Modelled from the spec: \<^verbatim>\<open>mathutils.Vector\<close> is the host's. The spec speaks of 3D
  positions, of the coordinate-space zero vector and of an arithmetic mean; the first
  host computes them in exact arithmetic over the reals, and visits a set in ascending
  order. It serves to run the operators on concrete inputs; the host's own arithmetic is
  floating point, which rounds.
\<close>

datatype Vector = Vector (vx: real) (vy: real) (vz: real)

fun v_add :: "Vector \<Rightarrow> Vector \<Rightarrow> Vector" where
  "v_add (Vector a b c) (Vector x y z) = Vector (a + x) (b + y) (c + z)"

fun v_sub :: "Vector \<Rightarrow> Vector \<Rightarrow> Vector" where
  "v_sub (Vector a b c) (Vector x y z) = Vector (a - x) (b - y) (c - z)"

fun v_scale :: "Vector \<Rightarrow> real \<Rightarrow> Vector" where
  "v_scale (Vector a b c) s = Vector (a * s) (b * s) (c * s)"

fun v_div :: "Vector \<Rightarrow> nat \<Rightarrow> Vector" where
  "v_div (Vector a b c) n = Vector (a / real n) (b / real n) (c / real n)"

text \<open>
  The names of new shape keys, as far as the two calls of the operator go: the host
  cuts a name to 63 characters, and gives the suffix \<^verbatim>\<open>.001\<close> to a name that is in use.
  (The host counts the bytes of the encoded name, and tries further suffixes when
  \<^verbatim>\<open>.001\<close> is in use as well; neither arises for an ASCII name next to the one key
  "Basis".)
\<close>

definition host_key_name :: "py_str list \<Rightarrow> py_str \<Rightarrow> py_str" where
  "host_key_name existing nm =
     (let cut = take 63 nm in if cut \<in> set existing then cut @ str ''.001'' else cut)"

definition exact_host :: "Vector host" where
  "exact_host =
     \<lparr>vzero = Vector 0 0 0, vadd = v_add, vsub = v_sub, vscale = v_scale, vdiv = v_div,
      set_iter = sorted_list_of_set, unique_name = host_key_name\<rparr>"

text \<open>
  A square of two triangles with one material each; only the first material is checked.
\<close>

definition quad :: "(Vector, string) Object" where
  "quad =
     \<lparr>obj_type = ''MESH'',
      vertices = [Vector 0 0 0, Vector 3 0 0, Vector 3 3 0, Vector 0 3 0],
      faces = [\<lparr>material_index = 0, verts = [0, 1, 2]\<rparr>,
               \<lparr>material_index = 1, verts = [0, 2, 3]\<rparr>],
      materials = [Some ''M0'', Some ''M1''],
      shape_keys = [],
      vrm_hide_materials = [\<lparr>material = Some ''M0'', use_hide = True\<rparr>,
                            \<lparr>material = Some ''M1'', use_hide = False\<rparr>]\<rparr>"

text \<open>Scene properties with a key name that starts with a space.\<close>

definition scene0 :: Scene where
  "scene0 =
     \<lparr>hide_shape_key_name = str '' A'', hide_shrink_factor = 1 / 2,
      hide_shrink_center = CENTROID\<rparr>"

text \<open>
  The same square with one material in both slots. The selector is what the refresh
  makes of it, with the second entry unchecked afterwards.
\<close>

definition twin :: "(Vector, string) Object" where
  "twin =
     quad\<lparr>materials := [Some ''M0'', Some ''M0''],
          vrm_hide_materials := [\<lparr>material = Some ''M0'', use_hide = True\<rparr>,
                                 \<lparr>material = Some ''M0'', use_hide = False\<rparr>]\<rparr>"

text \<open>
  A host that computes as the real host does, in single precision: every operation
  returns the number with a significand of 24 bits that is nearest to the exact result,
  the even one of two that are equally near (the exponent is not bounded here: no
  overflow, no subnormal numbers). The factor, a Python float, is rounded to single
  precision before it is used.
\<close>

definition round_even :: "real \<Rightarrow> int" where
  "round_even q =
     (let f = \<lfloor>q\<rfloor>; r = q - of_int f
      in if r < 1 / 2 then f else if 1 / 2 < r then f + 1 else if even f then f else f + 1)"

definition single :: "real \<Rightarrow> real" where
  "single x =
     (if x = 0 then 0
      else (let e = \<lfloor>log 2 \<bar>x\<bar>\<rfloor>; u = 2 powr (of_int e - 23)
            in of_int (round_even (x / u)) * u))"

fun s_add :: "Vector \<Rightarrow> Vector \<Rightarrow> Vector" where
  "s_add (Vector a b c) (Vector x y z) = Vector (single (a + x)) (single (b + y)) (single (c + z))"

fun s_sub :: "Vector \<Rightarrow> Vector \<Rightarrow> Vector" where
  "s_sub (Vector a b c) (Vector x y z) = Vector (single (a - x)) (single (b - y)) (single (c - z))"

fun s_scale :: "Vector \<Rightarrow> real \<Rightarrow> Vector" where
  "s_scale (Vector a b c) s =
     Vector (single (a * single s)) (single (b * single s)) (single (c * single s))"

fun s_div :: "Vector \<Rightarrow> nat \<Rightarrow> Vector" where
  "s_div (Vector a b c) n =
     Vector (single (a / real n)) (single (b / real n)) (single (c / real n))"

definition single_host :: "Vector host" where
  "single_host =
     \<lparr>vzero = Vector 0 0 0, vadd = s_add, vsub = s_sub, vscale = s_scale, vdiv = s_div,
      set_iter = sorted_list_of_set, unique_name = host_key_name\<rparr>"

text \<open>
  A square of side 2 whose first corner is off the origin by \<open>1 / 2 ^ 30\<close>, one face, one
  material, checked; and scene properties with the factor 1.
\<close>

definition near_square :: "(Vector, string) Object" where
  "near_square =
     \<lparr>obj_type = ''MESH'',
      vertices = [Vector (1 / 2 ^ 30) 0 0, Vector 2 0 0, Vector 2 2 0, Vector 0 2 0],
      faces = [\<lparr>material_index = 0, verts = [0, 1, 2, 3]\<rparr>],
      materials = [Some ''M0''],
      shape_keys = [],
      vrm_hide_materials = [\<lparr>material = Some ''M0'', use_hide = True\<rparr>]\<rparr>"

definition scene1 :: Scene where
  "scene1 =
     \<lparr>hide_shape_key_name = str ''Hidden'', hide_shrink_factor = 1,
      hide_shrink_center = CENTROID\<rparr>"

section \<open>Auxiliary facts\<close>

subsection \<open>The Python helpers\<close>

lemma index_all_in_range:
  "\<forall>i\<in>set js. i < length xs \<Longrightarrow> index_all xs js = Inr (map ((!) xs) js)"
  by (induction js) (auto simp: py_index_def)

lemma strip_Nil_iff: "strip s = [] \<longleftrightarrow> (\<forall>c\<in>set s. isspace c)"
proof
  assume "strip s = []"
  then have all: "\<forall>c\<in>set (dropWhile isspace s). isspace c"
    by (simp add: strip_def dropWhile_eq_Nil_conv)
  have "dropWhile isspace s = []"
  proof (rule ccontr)
    assume ne: "dropWhile isspace s \<noteq> []"
    then have "\<not> isspace (hd (dropWhile isspace s))" by (rule hd_dropWhile)
    moreover have "hd (dropWhile isspace s) \<in> set (dropWhile isspace s)"
      using ne by simp
    ultimately show False using all by blast
  qed
  then show "\<forall>c\<in>set s. isspace c" by (simp add: dropWhile_eq_Nil_conv)
next
  assume "\<forall>c\<in>set s. isspace c"
  then have d: "dropWhile isspace s = []" by (simp add: dropWhile_eq_Nil_conv)
  show "strip s = []" unfolding strip_def d by simp
qed

subsection \<open>The material list\<close>

lemma fold_add_item:
  "fold add_item ms obj =
     obj\<lparr>vrm_hide_materials :=
           vrm_hide_materials obj
           @ map (\<lambda>m. \<lparr>material = m, use_hide = True\<rparr>) (filter (\<lambda>m. m \<noteq> None) ms)\<rparr>"
  by (induction ms arbitrary: obj) (auto simp: add_item_def split: option.splits)

lemma sync_material_list_mesh:
  "obj_type obj = ''MESH'' \<Longrightarrow>
   sync_material_list (Some obj) =
     Some (obj\<lparr>vrm_hide_materials :=
                 map (\<lambda>m. \<lparr>material = m, use_hide = True\<rparr>)
                     (filter (\<lambda>m. m \<noteq> None) (materials obj))\<rparr>)"
  by (simp add: sync_material_list_def fold_add_item)

subsection \<open>Checked indices and affected vertices\<close>

lemma set_filter_enumerate:
  "set (map fst (filter (\<lambda>(i, item). P item) (enumerate n xs)))
   = {i. n \<le> i \<and> i < n + length xs \<and> P (xs ! (i - n))}"
  by (auto simp: in_set_enumerate_eq image_iff)

lemma set_checked_indices:
  "set (checked_indices items)
   = {i. i < length items \<and> use_hide (items ! i) \<and> material (items ! i) \<noteq> None}"
  unfolding checked_indices_def
  using set_filter_enumerate [of "\<lambda>item. use_hide item \<and> material item \<noteq> None" 0 items]
  by simp

lemma fold_insert_set: "fold insert xs A = set xs \<union> A"
  by (induction xs arbitrary: A) auto

lemma affected_fold:
  "fold (\<lambda>face acc. if material_index face \<in> C then fold insert (verts face) acc else acc) fs A
   = A \<union> (\<Union>f \<in> {f \<in> set fs. material_index f \<in> C}. set (verts f))"
  by (induction fs arbitrary: A) (auto simp: fold_insert_set)

lemma affected_verts_eq:
  "affected_verts fs checked
   = (\<Union>f \<in> {f \<in> set fs. material_index f \<in> set checked}. set (verts f))"
  by (simp add: affected_verts_def affected_fold)

subsection \<open>The shrink loop\<close>

lemma shrink_loop_in_range:
  "\<forall>i\<in>set js. i < length orig \<Longrightarrow> length sh = length orig \<Longrightarrow>
   \<exists>sh'. shrink_loop h orig c f js sh = Inr sh' \<and> length sh' = length orig \<and>
     (\<forall>k<length orig.
        sh' ! k = (if k \<in> set js then vadd h c (vscale h (vsub h (orig ! k) c) f)
                   else sh ! k))"
proof (induction js arbitrary: sh)
  case Nil
  then show ?case by simp
next
  case (Cons i js)
  let ?sh = "sh[i := vadd h c (vscale h (vsub h (orig ! i) c) f)]"
  from Cons.prems have i: "i < length orig" and js: "\<forall>i\<in>set js. i < length orig"
    by auto
  have len: "length ?sh = length orig" using Cons.prems by simp
  from Cons.IH [OF js len] obtain sh' where
    sh': "shrink_loop h orig c f js ?sh = Inr sh'" "length sh' = length orig"
      "\<forall>k<length orig.
         sh' ! k = (if k \<in> set js then vadd h c (vscale h (vsub h (orig ! k) c) f)
                    else ?sh ! k)"
    by blast
  have "shrink_loop h orig c f (i # js) sh = Inr sh'"
    using i sh'(1) by (simp add: py_index_def)
  moreover have "\<forall>k<length orig.
      sh' ! k = (if k \<in> set (i # js) then vadd h c (vscale h (vsub h (orig ! k) c) f)
                 else sh ! k)"
    using sh'(3) Cons.prems(2) by (auto simp: nth_list_update)
  ultimately show ?case using sh'(2) by blast
qed

lemma shrink_loop_length:
  "shrink_loop h orig c f js sh = Inr sh' \<Longrightarrow> length sh' = length sh"
  by (induction js arbitrary: sh) (auto simp: py_index_def Let_def split: if_splits)

lemma shrunk_cos_length:
  "shrunk_cos h orig c f A = Inr sh \<Longrightarrow> length sh = length orig"
  unfolding shrunk_cos_def by (rule shrink_loop_length)

subsection \<open>The state after a successful run\<close>

lemma write_cos_eq:
  assumes "length cs = length (vertices obj)"
  shows "write_cos cs obj = obj\<lparr>vertices := cs\<rparr>"
proof -
  have "map (\<lambda>(i, v). cs ! i) (enumerate 0 (vertices obj)) = cs"
    using assms by (auto simp: enumerate_eq_zip intro!: nth_equalityI)
  then show ?thesis by (simp add: write_cos_def)
qed

lemma finish_state:
  assumes "length shrunk = length (vertices obj)" and "shape_keys obj = []"
  shows "write_cos (vertices obj)
           (set_last_value 0
              (shape_key_add h (write_cos shrunk (shape_key_add h obj (str ''Basis''))) key))
         = obj\<lparr>shape_keys :=
                 [\<lparr>sk_name = unique_name h [] (str ''Basis''), sk_data = vertices obj,
                   sk_value = 0\<rparr>,
                  \<lparr>sk_name = unique_name h [unique_name h [] (str ''Basis'')] key,
                   sk_data = shrunk, sk_value = 0\<rparr>]\<rparr>"
proof -
  let ?obj1 = "shape_key_add h obj (str ''Basis'')"
  have v1: "vertices ?obj1 = vertices obj" by (simp add: shape_key_add_def)
  have o2: "write_cos shrunk ?obj1 = ?obj1\<lparr>vertices := shrunk\<rparr>"
    using assms(1) v1 by (simp add: write_cos_eq)
  let ?obj4 = "set_last_value 0 (shape_key_add h (?obj1\<lparr>vertices := shrunk\<rparr>) key)"
  have v4: "length (vertices obj) = length (vertices ?obj4)"
    using assms(1) by (simp add: set_last_value_def shape_key_add_def)
  show ?thesis
    unfolding o2 write_cos_eq [OF v4]
    using assms(2) by (simp add: set_last_value_def shape_key_add_def)
qed

text \<open>A run that finishes has passed every check, and leaves two shape keys.\<close>

lemma execute_finished:
  assumes "CreateHideOperator_execute h scene ob = (Return FINISHED msg, ob')"
  shows "\<exists>obj c shrunk.
           ob = Some obj \<and> obj_type obj = ''MESH'' \<and> shape_keys obj = [] \<and>
           checked_indices (vrm_hide_materials obj) \<noteq> [] \<and>
           affected_verts (faces obj) (checked_indices (vrm_hide_materials obj)) \<noteq> {} \<and>
           center h (hide_shrink_center scene) (vertices obj)
             (affected_verts (faces obj) (checked_indices (vrm_hide_materials obj))) = Inr c \<and>
           shrunk_cos h (vertices obj) c (hide_shrink_factor scene)
             (affected_verts (faces obj) (checked_indices (vrm_hide_materials obj)))
             = Inr shrunk \<and>
           ob' = Some (obj\<lparr>shape_keys :=
                   [\<lparr>sk_name = unique_name h [] (str ''Basis''), sk_data = vertices obj,
                     sk_value = 0\<rparr>,
                    \<lparr>sk_name = unique_name h [unique_name h [] (str ''Basis'')]
                                 (if strip (hide_shape_key_name scene) = [] then str ''Hidden''
                                  else strip (hide_shape_key_name scene)),
                     sk_data = shrunk, sk_value = 0\<rparr>]\<rparr>)"
proof (cases ob)
  case None
  with assms show ?thesis by (simp add: CreateHideOperator_execute_def)
next
  case (Some obj)
  let ?A = "affected_verts (faces obj) (checked_indices (vrm_hide_materials obj))"
  from assms Some have pre: "obj_type obj = ''MESH''" "shape_keys obj = []"
      "checked_indices (vrm_hide_materials obj) \<noteq> []" "?A \<noteq> {}"
    by (auto simp: CreateHideOperator_execute_def Let_def split: if_splits)
  from assms Some pre obtain c where
    c: "center h (hide_shrink_center scene) (vertices obj) ?A = Inr c"
    by (auto simp: CreateHideOperator_execute_def Let_def orig_cos_def split: sum.splits)
  from assms Some pre c obtain shrunk where
    s: "shrunk_cos h (vertices obj) c (hide_shrink_factor scene) ?A = Inr shrunk"
    by (auto simp: CreateHideOperator_execute_def Let_def orig_cos_def split: sum.splits)
  have len: "length shrunk = length (vertices obj)"
    using s by (rule shrunk_cos_length)
  from assms Some pre c s
  have "ob' = Some (write_cos (vertices obj)
           (set_last_value 0
              (shape_key_add h (write_cos shrunk (shape_key_add h obj (str ''Basis'')))
                 (if strip (hide_shape_key_name scene) = [] then str ''Hidden''
                  else strip (hide_shape_key_name scene)))))"
    by (simp add: CreateHideOperator_execute_def Let_def orig_cos_def)
  then show ?thesis
    using Some pre c s by (simp add: finish_state [OF len pre(2)])
qed

text \<open>Every other run leaves the object as it was.\<close>

lemma execute_not_finished:
  assumes "CreateHideOperator_execute h scene ob = (out, ob')"
    and "\<forall>msg. out \<noteq> Return FINISHED msg"
  shows "ob' = ob"
  using assms
  by (auto simp: CreateHideOperator_execute_def Let_def
           split: option.splits if_splits sum.splits)

subsection \<open>The operators on the small mesh\<close>

lemma quad_checked: "checked_indices (vrm_hide_materials quad) = [0]"
  by (simp add: checked_indices_def quad_def enumerate_eq_zip)

lemma quad_affected: "affected_verts (faces quad) [0] = {0, 1, 2}"
  by (simp add: affected_verts_def quad_def insert_commute)

lemma strip_scene0: "strip (hide_shape_key_name scene0) = str ''A''"
  by (simp add: scene0_def strip_def isspace_def str_def)

lemma basis_name: "host_key_name [] (str ''Basis'') = str ''Basis''"
  by (simp add: host_key_name_def str_def)

text \<open>The operator on the small mesh, for any key name.\<close>

lemma execute_quad_named:
  "CreateHideOperator_execute exact_host (scene0\<lparr>hide_shape_key_name := nm\<rparr>) (Some quad) =
     (Return FINISHED
        (INFO, str ''Hide shape key '' @ [of_char (CHR 0x27)]
               @ (if strip nm = [] then str ''Hidden'' else strip nm) @ [of_char (CHR 0x27)]
               @ str '' created! 0 = visible/normal, 1 = hidden/shrunk.''),
      Some (quad\<lparr>shape_keys :=
              [\<lparr>sk_name = str ''Basis'', sk_data = vertices quad, sk_value = 0\<rparr>,
               \<lparr>sk_name = host_key_name [str ''Basis'']
                            (if strip nm = [] then str ''Hidden'' else strip nm),
                sk_data = [Vector 1 (1 / 2) 0, Vector (5 / 2) (1 / 2) 0,
                           Vector (5 / 2) 2 0, Vector 0 3 0],
                sk_value = 0\<rparr>]\<rparr>))"
proof -
  have c: "center exact_host CENTROID (vertices quad) {0, Suc 0, 2} = Inr (Vector 2 1 0)"
    by (simp add: center_def exact_host_def quad_def py_index_def)
  have s: "shrunk_cos exact_host (vertices quad) (Vector 2 1 0) (1 / 2) {0, Suc 0, 2}
           = Inr [Vector 1 (1 / 2) 0, Vector (5 / 2) (1 / 2) 0, Vector (5 / 2) 2 0, Vector 0 3 0]"
    by (simp add: shrunk_cos_def exact_host_def quad_def py_index_def)
  have len: "length [Vector 1 (1 / 2) 0, Vector (5 / 2) (1 / 2) 0, Vector (5 / 2) 2 0,
                     Vector 0 3 0] = length (vertices quad)"
    by (simp add: quad_def)
  have keys: "shape_keys quad = []" by (simp add: quad_def)
  have mesh: "obj_type quad = ''MESH''" by (simp add: quad_def)
  have sc: "hide_shrink_factor scene0 = 1 / 2" "hide_shrink_center scene0 = CENTROID"
    by (simp_all add: scene0_def)
  have un: "unique_name exact_host = host_key_name" by (simp add: exact_host_def)
  show ?thesis
    unfolding CreateHideOperator_execute_def
    by (simp add: mesh keys quad_checked quad_affected sc orig_cos_def c s
                  finish_state [OF len keys] Let_def un basis_name)
qed

lemma execute_quad:
  "CreateHideOperator_execute exact_host scene0 (Some quad) =
     (Return FINISHED
        (INFO, str ''Hide shape key 'A' created! 0 = visible/normal, 1 = hidden/shrunk.''),
      Some (quad\<lparr>shape_keys :=
              [\<lparr>sk_name = str ''Basis'', sk_data = vertices quad, sk_value = 0\<rparr>,
               \<lparr>sk_name = str ''A'',
                sk_data = [Vector 1 (1 / 2) 0, Vector (5 / 2) (1 / 2) 0,
                           Vector (5 / 2) 2 0, Vector 0 3 0],
                sk_value = 0\<rparr>]\<rparr>))"
proof -
  have "scene0\<lparr>hide_shape_key_name := str '' A''\<rparr> = scene0" by (simp add: scene0_def)
  moreover have "strip (str '' A'') = str ''A''" by (simp add: strip_def isspace_def str_def)
  moreover have "str ''A'' \<noteq> []" by (simp add: str_def)
  moreover have "host_key_name [str ''Basis''] (str ''A'') = str ''A''"
    by (simp add: host_key_name_def str_def)
  moreover have "str ''Hide shape key '' @ [of_char (CHR 0x27)] @ str ''A'' @ [of_char (CHR 0x27)]
                 @ str '' created! 0 = visible/normal, 1 = hidden/shrunk.''
                 = str ''Hide shape key 'A' created! 0 = visible/normal, 1 = hidden/shrunk.''"
    by (simp add: str_def)
  ultimately show ?thesis using execute_quad_named [of "str '' A''"] by simp
qed

section \<open>The shrink computation\<close>

text \<open>
  Claim C1. Whenever the set's iteration visits exactly the affected vertices and these
  are vertices of the mesh, the shrink computation returns a list as long as the original
  positions in which every affected vertex \<open>i\<close> is at
  \<open>center + (orig[i] - center) * factor\<close>, in the host's arithmetic, and every other
  vertex is where it was.
\<close>

theorem shrunk_cos_positions:
  assumes "set (set_iter h affected) = affected"
    and "\<forall>i\<in>affected. i < length orig"
  shows "\<exists>shrunk. shrunk_cos h orig c factor affected = Inr shrunk \<and>
           length shrunk = length orig \<and>
           (\<forall>i<length orig.
              shrunk ! i = (if i \<in> affected
                            then vadd h c (vscale h (vsub h (orig ! i) c) factor)
                            else orig ! i))"
proof -
  have "\<forall>i\<in>set (set_iter h affected). i < length orig"
    using assms by simp
  from shrink_loop_in_range [OF this refl, of h c factor] show ?thesis
    unfolding shrunk_cos_def using assms(1) by simp
qed

theorem shrunk_cos_positions_witness:
  "\<exists>shrunk. shrunk_cos exact_host (vertices quad) (Vector 2 1 0) (1 / 2) {0, 1, 2} = Inr shrunk \<and>
     length shrunk = 4 \<and> shrunk ! 1 = Vector (5 / 2) (1 / 2) 0 \<and> shrunk ! 3 = Vector 0 3 0"
proof -
  have it: "set (set_iter exact_host {0, 1, 2}) = {0, 1, 2}"
    by (simp add: exact_host_def)
  have rg: "\<forall>i\<in>{0, 1, 2::nat}. i < length (vertices quad)"
    by (simp add: quad_def)
  from shrunk_cos_positions [OF it rg, of "Vector 2 1 0" "1 / 2"] obtain shrunk where
    s: "shrunk_cos exact_host (vertices quad) (Vector 2 1 0) (1 / 2) {0, 1, 2} = Inr shrunk"
       "length shrunk = length (vertices quad)"
       "\<forall>i<length (vertices quad).
          shrunk ! i = (if i \<in> {0, 1, 2}
                        then vadd exact_host (Vector 2 1 0)
                               (vscale exact_host
                                  (vsub exact_host (vertices quad ! i) (Vector 2 1 0)) (1 / 2))
                        else vertices quad ! i)"
    by blast
  have "shrunk ! 1 = Vector (5 / 2) (1 / 2) 0"
    using s(3) [rule_format, of 1] by (simp add: quad_def exact_host_def)
  moreover have "shrunk ! 3 = Vector 0 3 0"
    using s(3) [rule_format, of 3] by (simp add: quad_def)
  moreover have "length shrunk = 4" using s(2) by (simp add: quad_def)
  ultimately show ?thesis using s(1) by blast
qed

section \<open>Restoring the live positions\<close>

text \<open>
  Claim C2. Whatever the operator returns (cancelled, finished, or left by an exception),
  the vertex positions of the object afterwards are the positions it had at entry.
\<close>

theorem execute_restores:
  "map_option vertices (snd (CreateHideOperator_execute h scene ob)) = map_option vertices ob"
proof -
  obtain out ob' where r: "CreateHideOperator_execute h scene ob = (out, ob')"
    by (cases "CreateHideOperator_execute h scene ob")
  show ?thesis
  proof (cases "\<exists>msg. out = Return FINISHED msg")
    case True
    then obtain msg where "CreateHideOperator_execute h scene ob = (Return FINISHED msg, ob')"
      using r by blast
    from execute_finished [OF this] show ?thesis using r by auto
  next
    case False
    then have "ob' = ob" using execute_not_finished [OF r] by blast
    then show ?thesis using r by simp
  qed
qed

theorem execute_restores_witness:
  "map_option vertices (snd (CreateHideOperator_execute exact_host scene0 (Some quad)))
   = Some [Vector 0 0 0, Vector 3 0 0, Vector 3 3 0, Vector 0 3 0]"
  using execute_restores [of exact_host scene0 "Some quad"] by (simp add: quad_def)

section \<open>Affected vertices\<close>

text \<open>
  Claim C3. The set of affected vertices is the union of the vertex indices of the faces
  whose material index is the position of a selector entry with \<open>use_hide\<close> set and a
  material; a vertex is in the set if and only if it is a vertex of such a face.
\<close>

theorem affected_verts_union:
  "affected_verts (faces obj) (checked_indices (vrm_hide_materials obj))
   = (\<Union>f \<in> {f \<in> set (faces obj).
              material_index f < length (vrm_hide_materials obj) \<and>
              use_hide (vrm_hide_materials obj ! material_index f) \<and>
              material (vrm_hide_materials obj ! material_index f) \<noteq> None}.
        set (verts f))
   \<and> (v \<in> affected_verts (faces obj) (checked_indices (vrm_hide_materials obj))
        \<longleftrightarrow> (\<exists>f\<in>set (faces obj).
               material_index f < length (vrm_hide_materials obj) \<and>
               use_hide (vrm_hide_materials obj ! material_index f) \<and>
               material (vrm_hide_materials obj ! material_index f) \<noteq> None \<and>
               v \<in> set (verts f)))"
  by (auto simp: affected_verts_eq set_checked_indices)

theorem affected_verts_union_witness:
  "1 \<in> affected_verts (faces quad) (checked_indices (vrm_hide_materials quad)) \<and>
   3 \<notin> affected_verts (faces quad) (checked_indices (vrm_hide_materials quad))"
  using affected_verts_union [of quad 1, THEN conjunct2]
    affected_verts_union [of quad 3, THEN conjunct2]
  by (simp add: quad_def)

section \<open>Failures of the preconditions\<close>



section \<open>The two shape keys\<close>

text \<open>
  Claim C5, as the spec states it: after a successful run the target key is named by the
  scene's key name, or "Hidden" when that is blank. It fails for a name with a leading
  space: the key is named by the stripped name.
\<close>

theorem key_name_counterexample:
  "hide_shape_key_name scene0 = str '' A'' \<and>
   fst (CreateHideOperator_execute exact_host scene0 (Some quad))
   = Return FINISHED
       (INFO, str ''Hide shape key 'A' created! 0 = visible/normal, 1 = hidden/shrunk.'') \<and>
   sk_name (last (shape_keys (the (snd (CreateHideOperator_execute exact_host scene0 (Some quad))))))
   = str ''A'' \<and>
   sk_name (last (shape_keys (the (snd (CreateHideOperator_execute exact_host scene0 (Some quad))))))
   \<noteq> hide_shape_key_name scene0"
  by (simp add: execute_quad) (simp add: scene0_def str_def)

text \<open>
  Claim C5, amended. After a run that finishes there are exactly two shape keys. The
  first holds the positions the mesh had at entry; it is asked for under the name
  "Basis". The second holds the shrunk positions and has the value 0; it is asked for
  under the scene's key name with the whitespace at both ends removed, or under "Hidden"
  when nothing remains, that is, when the key name is empty or consists of whitespace
  only. Each key bears the name that the host makes of the name asked for, given the
  names in use: the host may alter it, as it does for a name that is taken (a target
  asked for as "Basis") or too long.
\<close>

theorem hide_key_created:
  assumes "CreateHideOperator_execute h scene (Some obj) = (Return FINISHED msg, ob')"
  shows "\<exists>obj' c shrunk.
           ob' = Some obj' \<and>
           center h (hide_shrink_center scene) (vertices obj)
             (affected_verts (faces obj) (checked_indices (vrm_hide_materials obj))) = Inr c \<and>
           shrunk_cos h (vertices obj) c (hide_shrink_factor scene)
             (affected_verts (faces obj) (checked_indices (vrm_hide_materials obj)))
             = Inr shrunk \<and>
           map sk_name (shape_keys obj')
           = [unique_name h [] (str ''Basis''),
              unique_name h [unique_name h [] (str ''Basis'')]
                (if (\<forall>ch\<in>set (hide_shape_key_name scene). isspace ch) then str ''Hidden''
                 else strip (hide_shape_key_name scene))] \<and>
           map sk_data (shape_keys obj') = [vertices obj, shrunk] \<and>
           sk_value (last (shape_keys obj')) = 0"
proof -
  from execute_finished [OF assms] obtain c shrunk where
    f: "center h (hide_shrink_center scene) (vertices obj)
          (affected_verts (faces obj) (checked_indices (vrm_hide_materials obj))) = Inr c"
       "shrunk_cos h (vertices obj) c (hide_shrink_factor scene)
          (affected_verts (faces obj) (checked_indices (vrm_hide_materials obj))) = Inr shrunk"
       "ob' = Some (obj\<lparr>shape_keys :=
                [\<lparr>sk_name = unique_name h [] (str ''Basis''), sk_data = vertices obj,
                  sk_value = 0\<rparr>,
                 \<lparr>sk_name = unique_name h [unique_name h [] (str ''Basis'')]
                              (if strip (hide_shape_key_name scene) = [] then str ''Hidden''
                               else strip (hide_shape_key_name scene)),
                  sk_data = shrunk, sk_value = 0\<rparr>]\<rparr>)"
    by auto
  show ?thesis
    using f by (simp add: strip_Nil_iff)
qed

theorem hide_key_created_witness:
  "map sk_name
     (shape_keys (the (snd (CreateHideOperator_execute exact_host scene0 (Some quad)))))
   = [str ''Basis'', str ''A'']
   \<and> hd (map sk_data
           (shape_keys (the (snd (CreateHideOperator_execute exact_host scene0 (Some quad))))))
     = [Vector 0 0 0, Vector 3 0 0, Vector 3 3 0, Vector 0 3 0]
   \<and> sk_value
       (last (shape_keys (the (snd (CreateHideOperator_execute exact_host scene0 (Some quad))))))
     = 0
   \<and> map sk_name
       (shape_keys (the (snd (CreateHideOperator_execute exact_host
                                (scene0\<lparr>hide_shape_key_name := str ''  ''\<rparr>) (Some quad)))))
     = [str ''Basis'', str ''Hidden'']
   \<and> map sk_name
       (shape_keys (the (snd (CreateHideOperator_execute exact_host
                                (scene0\<lparr>hide_shape_key_name := str ''Basis''\<rparr>) (Some quad)))))
     = [str ''Basis'', str ''Basis.001'']"
proof -
  let ?A = "affected_verts (faces quad) (checked_indices (vrm_hide_materials quad))"
  have un: "unique_name exact_host = host_key_name" by (simp add: exact_host_def)
  have run: "\<And>nm. \<exists>obj'.
      snd (CreateHideOperator_execute exact_host (scene0\<lparr>hide_shape_key_name := nm\<rparr>) (Some quad))
      = Some obj' \<and>
      map sk_name (shape_keys obj')
      = [str ''Basis'',
         host_key_name [str ''Basis'']
           (if (\<forall>ch\<in>set nm. isspace ch) then str ''Hidden'' else strip nm)] \<and>
      hd (map sk_data (shape_keys obj')) = vertices quad \<and>
      sk_value (last (shape_keys obj')) = 0"
  proof -
    fix nm
    let ?scene = "scene0\<lparr>hide_shape_key_name := nm\<rparr>"
    let ?run = "CreateHideOperator_execute exact_host ?scene (Some quad)"
    have fin: "?run
        = (Return FINISHED
             (INFO, str ''Hide shape key '' @ [of_char (CHR 0x27)]
                    @ (if strip nm = [] then str ''Hidden'' else strip nm) @ [of_char (CHR 0x27)]
                    @ str '' created! 0 = visible/normal, 1 = hidden/shrunk.''),
           snd ?run)"
      by (simp add: execute_quad_named)
    from hide_key_created [OF fin] obtain obj' c shrunk where
      a: "snd ?run = Some obj' \<and>
          center exact_host (hide_shrink_center ?scene) (vertices quad) ?A = Inr c \<and>
          shrunk_cos exact_host (vertices quad) c (hide_shrink_factor ?scene) ?A = Inr shrunk \<and>
          map sk_name (shape_keys obj')
          = [unique_name exact_host [] (str ''Basis''),
             unique_name exact_host [unique_name exact_host [] (str ''Basis'')]
               (if (\<forall>ch\<in>set (hide_shape_key_name ?scene). isspace ch) then str ''Hidden''
                else strip (hide_shape_key_name ?scene))] \<and>
          map sk_data (shape_keys obj') = [vertices quad, shrunk] \<and>
          sk_value (last (shape_keys obj')) = 0"
      by (elim exE) (erule that)
    have f1: "snd ?run = Some obj'" using a by (elim conjE)
    have f2: "map sk_name (shape_keys obj')
        = [str ''Basis'',
           host_key_name [str ''Basis'']
             (if (\<forall>ch\<in>set nm. isspace ch) then str ''Hidden'' else strip nm)]"
      using a by (simp add: un basis_name)
    have f3: "hd (map sk_data (shape_keys obj')) = vertices quad"
      using a by simp
    have f4: "sk_value (last (shape_keys obj')) = 0" using a by (elim conjE)
    show "\<exists>obj'. snd ?run = Some obj' \<and>
        map sk_name (shape_keys obj')
        = [str ''Basis'',
           host_key_name [str ''Basis'']
             (if (\<forall>ch\<in>set nm. isspace ch) then str ''Hidden'' else strip nm)] \<and>
        hd (map sk_data (shape_keys obj')) = vertices quad \<and>
        sk_value (last (shape_keys obj')) = 0"
      by (rule exI [of _ obj']) (intro conjI f1 f2 f3 f4)
  qed
  have s0: "scene0\<lparr>hide_shape_key_name := str '' A''\<rparr> = scene0" by (simp add: scene0_def)
  have n1: "(if (\<forall>ch\<in>set (str '' A''). isspace ch) then str ''Hidden'' else strip (str '' A''))
            = str ''A''"
    by (simp add: str_def isspace_def strip_def)
  have n2: "(if (\<forall>ch\<in>set (str ''  ''). isspace ch) then str ''Hidden'' else strip (str ''  ''))
            = str ''Hidden''"
    by (simp add: str_def isspace_def)
  have n3: "(if (\<forall>ch\<in>set (str ''Basis''). isspace ch) then str ''Hidden''
             else strip (str ''Basis'')) = str ''Basis''"
    by (simp add: str_def isspace_def strip_def)
  have k1: "host_key_name [str ''Basis''] (str ''A'') = str ''A''"
    by (simp add: host_key_name_def str_def)
  have k2: "host_key_name [str ''Basis''] (str ''Hidden'') = str ''Hidden''"
    by (simp add: host_key_name_def str_def)
  have k3: "host_key_name [str ''Basis''] (str ''Basis'') = str ''Basis.001''"
    by (simp add: host_key_name_def str_def)
  have v: "vertices quad = [Vector 0 0 0, Vector 3 0 0, Vector 3 3 0, Vector 0 3 0]"
    by (simp add: quad_def)
  from run [of "str '' A''"] have w1:
    "map sk_name
       (shape_keys (the (snd (CreateHideOperator_execute exact_host scene0 (Some quad)))))
     = [str ''Basis'', str ''A'']
     \<and> hd (map sk_data
             (shape_keys (the (snd (CreateHideOperator_execute exact_host scene0 (Some quad))))))
       = [Vector 0 0 0, Vector 3 0 0, Vector 3 3 0, Vector 0 3 0]
     \<and> sk_value
         (last (shape_keys (the (snd (CreateHideOperator_execute exact_host scene0 (Some quad))))))
       = 0"
    unfolding s0 n1 k1 v by (elim exE conjE) simp
  from run [of "str ''  ''"] have w2:
    "map sk_name
       (shape_keys (the (snd (CreateHideOperator_execute exact_host
                                (scene0\<lparr>hide_shape_key_name := str ''  ''\<rparr>) (Some quad)))))
     = [str ''Basis'', str ''Hidden'']"
    unfolding n2 k2 by (elim exE conjE) simp
  from run [of "str ''Basis''"] have w3:
    "map sk_name
       (shape_keys (the (snd (CreateHideOperator_execute exact_host
                                (scene0\<lparr>hide_shape_key_name := str ''Basis''\<rparr>) (Some quad)))))
     = [str ''Basis'', str ''Basis.001'']"
    unfolding n3 k3 by (elim exE conjE) simp
  from w1 w2 w3 show ?thesis by blast
qed

section \<open>The shrink centre\<close>

text \<open>
  Claim C6. When the set's iteration visits every affected vertex exactly once, the set
  is not empty and its members are vertices of the mesh, the centre in \<open>CENTROID\<close> mode
  is the sum of the original positions of the affected vertices, taken from the zero
  vector on in the order of the iteration, divided by the number of affected vertices,
  which is positive; in \<open>ORIGIN\<close> mode it is the zero vector.
\<close>

theorem center_mean:
  assumes "set (set_iter h affected) = affected"
    and "distinct (set_iter h affected)"
    and "affected \<noteq> {}"
    and "\<forall>i\<in>affected. i < length orig"
  shows "center h CENTROID orig affected
         = Inr (vdiv h (foldl (vadd h) (vzero h) (map ((!) orig) (set_iter h affected)))
                  (card affected))
         \<and> 0 < card affected
         \<and> center h ORIGIN orig affected = Inr (vzero h)"
proof -
  have rg: "\<forall>i\<in>set (set_iter h affected). i < length orig"
    using assms(1,4) by simp
  have card: "length (set_iter h affected) = card affected"
    using distinct_card [OF assms(2)] assms(1) by simp
  have "set_iter h affected \<noteq> []"
    using assms(1,3) by auto
  then have pos: "0 < card affected" using card by (metis length_greater_0_conv)
  have "center h CENTROID orig affected
        = Inr (vdiv h (foldl (vadd h) (vzero h) (map ((!) orig) (set_iter h affected)))
                 (card affected))"
    using pos card by (simp add: center_def index_all_in_range [OF rg])
  moreover have "center h ORIGIN orig affected = Inr (vzero h)"
    by (simp add: center_def)
  ultimately show ?thesis using pos by simp
qed

theorem center_mean_witness:
  "center exact_host CENTROID (vertices quad) {0, 1, 2} = Inr (Vector 2 1 0) \<and>
   card {0, 1, 2 :: nat} = 3 \<and>
   center exact_host ORIGIN (vertices quad) {0, 1, 2} = Inr (Vector 0 0 0)"
proof -
  have it: "set (set_iter exact_host {0, 1, 2}) = {0, 1, 2}"
    by (simp add: exact_host_def)
  have di: "distinct (set_iter exact_host {0, 1, 2})"
    by (simp add: exact_host_def)
  have ne: "{0, 1, 2 :: nat} \<noteq> {}" by simp
  have rg: "\<forall>i\<in>{0, 1, 2 :: nat}. i < length (vertices quad)"
    by (simp add: quad_def)
  have cd: "card {0, 1, 2 :: nat} = 3" by simp
  have sm: "vdiv exact_host
              (foldl (vadd exact_host) (vzero exact_host)
                 (map ((!) (vertices quad)) (set_iter exact_host {0, 1, 2}))) 3
            = Vector 2 1 0"
    by (simp add: exact_host_def quad_def)
  from center_mean [OF it di ne rg] show ?thesis
    unfolding cd sm by (simp add: exact_host_def)
qed

section \<open>The factors 1 and 0\<close>

subsection \<open>Rounding to single precision\<close>

lemma expo_eq:
  assumes "2 powr of_int e \<le> \<bar>x\<bar>" and "\<bar>x\<bar> < 2 powr (of_int e + 1)"
  shows "\<lfloor>log 2 \<bar>x\<bar>\<rfloor> = e"
proof -
  have pos: "0 < \<bar>x\<bar>"
    using assms(1) powr_gt_zero [of 2 "of_int e"] by linarith
  have "of_int e \<le> log 2 \<bar>x\<bar>" using assms(1) pos by (simp add: le_log_iff)
  moreover have "log 2 \<bar>x\<bar> < of_int e + 1" using assms(2) pos by (simp add: log_less_iff)
  ultimately show ?thesis by linarith
qed

lemma round_even_near: "0 \<le> d \<Longrightarrow> d < 1 / 2 \<Longrightarrow> round_even (of_int m + d) = m"
proof -
  assume d: "0 \<le> d" "d < 1 / 2"
  then have "\<lfloor>of_int m + d\<rfloor> = m" by linarith
  then show ?thesis using d by (simp add: round_even_def Let_def)
qed

lemma single_eval:
  assumes "2 powr of_int e \<le> \<bar>x\<bar>" and "\<bar>x\<bar> < 2 powr (of_int e + 1)"
    and "x / 2 powr (of_int e - 23) = of_int m + d" and "0 \<le> d" and "d < 1 / 2"
  shows "single x = of_int m * 2 powr (of_int e - 23)"
proof -
  have "x \<noteq> 0" using assms(1) powr_gt_zero [of 2 "of_int e"] by auto
  then show ?thesis
    using expo_eq [OF assms(1,2)] round_even_near [OF assms(4,5), of m]
    by (simp add: single_def Let_def assms(3))
qed

lemma single_0: "single 0 = 0"
  by (simp add: single_def)

lemma single_1: "single 1 = 1"
  using single_eval [of 0 1 "2 ^ 23" 0] by (simp add: powr_minus_divide)

lemma single_m1: "single (- 1) = - 1"
  using single_eval [of 0 "- 1" "- (2 ^ 23)" 0] by (simp add: powr_minus_divide)

lemma single_2: "single 2 = 2"
  using single_eval [of 1 2 "2 ^ 23" 0] by (simp add: powr_minus_divide)

lemma single_4: "single 4 = 4"
  using single_eval [of 2 4 "2 ^ 23" 0] by (simp add: powr_minus_divide)

lemma single_tiny: "single (1 / 2 ^ 30) = 1 / 2 ^ 30"
  using single_eval [of "- 30" "1 / 2 ^ 30" "2 ^ 23" 0] by (simp add: powr_minus_divide)

lemma single_absorb: "single (1 / 2 ^ 30 + 2) = 2"
  using single_eval [of 1 "1 / 2 ^ 30 + 2" "2 ^ 23" "1 / 2 ^ 8"] by (simp add: powr_minus_divide)

lemma single_cancel: "single (1 / 2 ^ 30 - 1) = - 1"
  using single_eval [of "- 1" "1 / 2 ^ 30 - 1" "- (2 ^ 24)" "1 / 2 ^ 6"]
  by (simp add: powr_minus_divide)

subsection \<open>The operator in single precision\<close>

lemma near_checked: "checked_indices (vrm_hide_materials near_square) = [0]"
  by (simp add: checked_indices_def near_square_def enumerate_eq_zip)

lemma near_affected: "affected_verts (faces near_square) [0] = {0, 1, 2, 3}"
  by (simp add: affected_verts_def near_square_def insert_commute)

lemma single_tiny_num: "single (1 / 1073741824) = 1 / 1073741824"
  using single_tiny by simp

lemma single_absorb_num: "single (2147483649 / 1073741824) = 2"
  using single_absorb by simp

lemma single_cancel_num: "single (- (1073741823 / 1073741824)) = - 1"
  using single_cancel by simp

lemma near_center:
  "center single_host CENTROID (vertices near_square) {0, 1, 2, 3} = Inr (Vector 1 1 0)"
  apply (simp add: center_def single_host_def near_square_def py_index_def)
  apply (simp add: single_0 single_1 single_2 single_4 single_tiny_num
                   single_absorb_num)
  done

lemma near_shrunk:
  "shrunk_cos single_host (vertices near_square) (Vector 1 1 0) 1 {0, 1, 2, 3}
   = Inr [Vector 0 0 0, Vector 2 0 0, Vector 2 2 0, Vector 0 2 0]"
  apply (simp add: shrunk_cos_def single_host_def near_square_def py_index_def)
  apply (simp add: single_0 single_1 single_m1 single_2 single_cancel_num)
  done

lemma execute_near:
  "CreateHideOperator_execute single_host scene1 (Some near_square) =
     (Return FINISHED
        (INFO, str ''Hide shape key 'Hidden' created! 0 = visible/normal, 1 = hidden/shrunk.''),
      Some (near_square\<lparr>shape_keys :=
              [\<lparr>sk_name = str ''Basis'', sk_data = vertices near_square, sk_value = 0\<rparr>,
               \<lparr>sk_name = str ''Hidden'',
                sk_data = [Vector 0 0 0, Vector 2 0 0, Vector 2 2 0, Vector 0 2 0],
                sk_value = 0\<rparr>]\<rparr>))"
proof -
  have c: "center single_host CENTROID (vertices near_square) {0, Suc 0, 2, 3}
           = Inr (Vector 1 1 0)"
    using near_center by simp
  have s: "shrunk_cos single_host (vertices near_square) (Vector 1 1 0) 1 {0, Suc 0, 2, 3}
           = Inr [Vector 0 0 0, Vector 2 0 0, Vector 2 2 0, Vector 0 2 0]"
    using near_shrunk by simp
  have len: "length [Vector 0 0 0, Vector 2 0 0, Vector 2 2 0, Vector 0 2 0]
             = length (vertices near_square)"
    by (simp add: near_square_def)
  have keys: "shape_keys near_square = []" by (simp add: near_square_def)
  have mesh: "obj_type near_square = ''MESH''" by (simp add: near_square_def)
  have sc: "hide_shrink_factor scene1 = 1" "hide_shrink_center scene1 = CENTROID"
    by (simp_all add: scene1_def)
  have nm: "strip (hide_shape_key_name scene1) = str ''Hidden''"
    by (simp add: scene1_def strip_def isspace_def str_def)
  have ne: "str ''Hidden'' \<noteq> []" by (simp add: str_def)
  have un: "unique_name single_host = host_key_name" by (simp add: single_host_def)
  have k: "host_key_name [str ''Basis''] (str ''Hidden'') = str ''Hidden''"
    by (simp add: host_key_name_def str_def)
  show ?thesis
    unfolding CreateHideOperator_execute_def
    by (simp add: mesh keys near_checked near_affected sc orig_cos_def c s nm ne
                  finish_state [OF len keys] Let_def un basis_name k)
       (simp add: str_def)
qed

text \<open>
  Claim C7, as stated: at the factor 1 every shrunk position is the original position,
  for every mesh, centre and affected set. It fails in the arithmetic of the host. On
  the square whose first corner is at \<open>1 / 2 ^ 30\<close> the centroid is \<open>(1, 1, 0)\<close>; the
  difference \<open>1 / 2 ^ 30 - 1\<close> is rounded to \<open>- 1\<close>, and the corner goes to the origin.
\<close>

theorem shrink_identity_counterexample:
  "hide_shrink_factor scene1 = 1
   \<and> fst (CreateHideOperator_execute single_host scene1 (Some near_square))
     = Return FINISHED
         (INFO, str ''Hide shape key 'Hidden' created! 0 = visible/normal, 1 = hidden/shrunk.'')
   \<and> vertices near_square ! 0 = Vector (1 / 2 ^ 30) 0 0
   \<and> shrunk_cos single_host (vertices near_square) (Vector 1 1 0) 1 {0, 1, 2, 3}
     = Inr [Vector 0 0 0, Vector 2 0 0, Vector 2 2 0, Vector 0 2 0]
   \<and> sk_data (last (shape_keys
         (the (snd (CreateHideOperator_execute single_host scene1 (Some near_square)))))) ! 0
     = Vector 0 0 0
   \<and> sk_data (last (shape_keys
         (the (snd (CreateHideOperator_execute single_host scene1 (Some near_square)))))) ! 0
     \<noteq> vertices near_square ! 0"
proof -
  let ?run = "CreateHideOperator_execute single_host scene1 (Some near_square)"
  have f: "hide_shrink_factor scene1 = 1" by (simp add: scene1_def)
  have r: "fst ?run
      = Return FINISHED
          (INFO, str ''Hide shape key 'Hidden' created! 0 = visible/normal, 1 = hidden/shrunk.'')"
    by (simp add: execute_near)
  have v: "vertices near_square ! 0 = Vector (1 / 2 ^ 30) 0 0"
    by (simp add: near_square_def)
  have d: "sk_data (last (shape_keys (the (snd ?run)))) ! 0 = Vector 0 0 0"
    by (simp add: execute_near)
  have n: "sk_data (last (shape_keys (the (snd ?run)))) ! 0 \<noteq> vertices near_square ! 0"
    unfolding d v by simp
  from f r v near_shrunk d n show ?thesis by blast
qed

text \<open>
  Claim C7, amended. For every mesh, centre and affected set: at the factor 1 the shrunk
  positions are the original positions, for every vertex, when the host's vector
  arithmetic is exact; and at the factor 0 the shrunk position of every affected vertex
  is the centre, when the host's arithmetic returns the centre for the centre plus a
  vector scaled by 0, as exact arithmetic does.
\<close>

theorem shrunk_cos_exact_factor:
  assumes "set (set_iter h affected) = affected"
    and "\<forall>i\<in>affected. i < length orig"
  shows "(vadd h = v_add \<and> vsub h = v_sub \<and> vscale h = v_scale \<longrightarrow>
            shrunk_cos h orig c 1 affected = Inr orig)
         \<and> ((\<forall>d. vadd h c (vscale h d 0) = c) \<longrightarrow>
            (\<exists>shrunk. shrunk_cos h orig c 0 affected = Inr shrunk \<and>
               (\<forall>i\<in>affected. shrunk ! i = c)))"
proof -
  have rg: "\<forall>i\<in>set (set_iter h affected). i < length orig"
    using assms(1,2) by simp
  have first: "shrunk_cos h orig c 1 affected = Inr orig"
    if ops: "vadd h = v_add \<and> vsub h = v_sub \<and> vscale h = v_scale"
  proof -
    have one: "\<And>p. v_add c (v_scale (v_sub p c) 1) = p"
      by (cases c) (case_tac p, simp)
    from shrink_loop_in_range [OF rg refl, of h c 1] obtain sh where
      sh: "shrink_loop h orig c 1 (set_iter h affected) orig = Inr sh"
          "length sh = length orig"
          "\<forall>k<length orig. sh ! k = orig ! k"
      using ops one by auto
    have "sh = orig" using sh(2,3) by (simp add: nth_equalityI)
    then show ?thesis using sh(1) by (simp add: shrunk_cos_def)
  qed
  have second: "\<exists>shrunk. shrunk_cos h orig c 0 affected = Inr shrunk \<and>
                  (\<forall>i\<in>affected. shrunk ! i = c)"
    if zero: "\<forall>d. vadd h c (vscale h d 0) = c"
  proof -
    from shrink_loop_in_range [OF rg refl, of h c 0] obtain sh0 where
      sh0: "shrink_loop h orig c 0 (set_iter h affected) orig = Inr sh0"
           "\<forall>k<length orig. sh0 ! k = (if k \<in> affected then c else orig ! k)"
      using zero assms(1) by auto
    show ?thesis using sh0 assms(2) by (auto simp: shrunk_cos_def)
  qed
  from first second show ?thesis by blast
qed

theorem shrunk_cos_exact_factor_witness:
  "shrunk_cos exact_host (vertices quad) (Vector 2 1 0) 1 {0, 1, 2}
   = Inr [Vector 0 0 0, Vector 3 0 0, Vector 3 3 0, Vector 0 3 0]
   \<and> (\<exists>shrunk. shrunk_cos exact_host (vertices quad) (Vector 2 1 0) 0 {0, 1, 2} = Inr shrunk \<and>
         shrunk ! 0 = Vector 2 1 0 \<and> shrunk ! 1 = Vector 2 1 0 \<and> shrunk ! 2 = Vector 2 1 0)
   \<and> (\<exists>shrunk. shrunk_cos single_host (vertices near_square) (Vector 1 1 0) 0 {0, 1, 2, 3}
                   = Inr shrunk \<and>
         shrunk ! 0 = Vector 1 1 0 \<and> shrunk ! 3 = Vector 1 1 0)"
proof -
  have it: "set (set_iter exact_host {0, 1, 2}) = {0, 1, 2}"
    by (simp add: exact_host_def)
  have rg: "\<forall>i\<in>{0, 1, 2::nat}. i < length (vertices quad)"
    by (simp add: quad_def)
  have ops: "vadd exact_host = v_add \<and> vsub exact_host = v_sub \<and> vscale exact_host = v_scale"
    by (simp add: exact_host_def)
  have law: "\<forall>d. vadd exact_host (Vector 2 1 0) (vscale exact_host d 0) = Vector 2 1 0"
  proof
    fix d show "vadd exact_host (Vector 2 1 0) (vscale exact_host d 0) = Vector 2 1 0"
      by (cases d) (simp add: exact_host_def)
  qed
  note t = shrunk_cos_exact_factor [OF it rg, of "Vector 2 1 0"]
  have w1: "shrunk_cos exact_host (vertices quad) (Vector 2 1 0) 1 {0, 1, 2}
            = Inr [Vector 0 0 0, Vector 3 0 0, Vector 3 3 0, Vector 0 3 0]"
    using t ops by (simp add: quad_def)
  from t law obtain shrunk where
    s: "shrunk_cos exact_host (vertices quad) (Vector 2 1 0) 0 {0, 1, 2} = Inr shrunk"
       "\<forall>i\<in>{0, 1, 2::nat}. shrunk ! i = Vector 2 1 0"
    by blast
  have s3: "shrunk ! 0 = Vector 2 1 0" "shrunk ! 1 = Vector 2 1 0" "shrunk ! 2 = Vector 2 1 0"
    using s(2) by simp_all
  have w2: "\<exists>shrunk. shrunk_cos exact_host (vertices quad) (Vector 2 1 0) 0 {0, 1, 2} = Inr shrunk \<and>
         shrunk ! 0 = Vector 2 1 0 \<and> shrunk ! 1 = Vector 2 1 0 \<and> shrunk ! 2 = Vector 2 1 0"
    by (rule exI [of _ shrunk]) (intro conjI s(1) s3)
  have it': "set (set_iter single_host {0, 1, 2, 3}) = {0, 1, 2, 3}"
    by (simp add: single_host_def)
  have rg': "\<forall>i\<in>{0, 1, 2, 3::nat}. i < length (vertices near_square)"
    by (simp add: near_square_def)
  have law': "\<forall>d. vadd single_host (Vector 1 1 0) (vscale single_host d 0) = Vector 1 1 0"
  proof
    fix d show "vadd single_host (Vector 1 1 0) (vscale single_host d 0) = Vector 1 1 0"
      by (cases d) (simp add: single_host_def single_0 single_1)
  qed
  from shrunk_cos_exact_factor [OF it' rg', of "Vector 1 1 0"] law' obtain shrunk' where
    s': "shrunk_cos single_host (vertices near_square) (Vector 1 1 0) 0 {0, 1, 2, 3} = Inr shrunk'"
        "\<forall>i\<in>{0, 1, 2, 3::nat}. shrunk' ! i = Vector 1 1 0"
    by blast
  have s4: "shrunk' ! 0 = Vector 1 1 0" "shrunk' ! 3 = Vector 1 1 0"
    using s'(2) by simp_all
  have w3: "\<exists>shrunk. shrunk_cos single_host (vertices near_square) (Vector 1 1 0) 0 {0, 1, 2, 3}
                   = Inr shrunk \<and>
         shrunk ! 0 = Vector 1 1 0 \<and> shrunk ! 3 = Vector 1 1 0"
    by (rule exI [of _ shrunk']) (intro conjI s'(1) s4)
  from w1 w2 w3 show ?thesis by blast
qed

section \<open>Selector positions as slot indices\<close>

text \<open>
  Claim C8, as stated: on a mesh without empty slots whose slots have not changed since
  the refresh, the checked indices are the slot indices of the materials that the user
  has checked. It fails when one material is in two slots and only one of its two
  entries is checked: slot 1 holds the checked material, and 1 is not a checked index.
\<close>

theorem checked_slots_counterexample:
  "None \<notin> set (materials twin)
   \<and> map material (vrm_hide_materials (the (sync_material_list (Some twin))))
     = map material (vrm_hide_materials twin)
   \<and> use_hide (vrm_hide_materials twin ! 0)
   \<and> material (vrm_hide_materials twin ! 0) = materials twin ! 1
   \<and> 1 \<in> checked_material_slots (materials twin) (vrm_hide_materials twin)
   \<and> 1 \<notin> set (checked_indices (vrm_hide_materials twin))"
proof -
  have "sync_material_list (Some twin)
        = Some (twin\<lparr>vrm_hide_materials := [\<lparr>material = Some ''M0'', use_hide = True\<rparr>,
                                                \<lparr>material = Some ''M0'', use_hide = True\<rparr>]\<rparr>)"
    by (simp add: sync_material_list_def twin_def quad_def add_item_def)
  then have "map material (vrm_hide_materials (the (sync_material_list (Some twin))))
             = map material (vrm_hide_materials twin)"
    by (simp add: twin_def)
  moreover have "1 \<in> checked_material_slots (materials twin) (vrm_hide_materials twin)"
    by (simp add: checked_material_slots_def twin_def)
  moreover have "1 \<notin> set (checked_indices (vrm_hide_materials twin))"
    by (simp add: set_checked_indices twin_def)
  moreover have "None \<notin> set (materials twin)" by (simp add: twin_def)
  moreover have "use_hide (vrm_hide_materials twin ! 0)"
    and "material (vrm_hide_materials twin ! 0) = materials twin ! 1"
    by (simp_all add: twin_def)
  ultimately show ?thesis by simp
qed

text \<open>
  Claim C8, amended. Faces are matched against the positions of the checked selector
  entries, and nothing compares the selector with the material slots. When the selector
  is what the refresh made of a mesh without empty slots and with no material in two
  slots, with the checkboxes set at will, the selector and the slots have the same
  length and the same material at every position, the checked indices are exactly the
  slot indices of the checked materials, which are the slots whose entry is checked, and
  the affected vertices are those of the faces that use such a slot.
\<close>

theorem checked_indices_are_slots:
  assumes "obj_type obj = ''MESH''"
    and "None \<notin> set (materials obj)"
    and "distinct (materials obj)"
    and "sync_material_list (Some obj) = Some obj1"
    and "map material items = map material (vrm_hide_materials obj1)"
  shows "length items = length (materials obj)
         \<and> map material items = materials obj
         \<and> set (checked_indices items) = checked_material_slots (materials obj) items
         \<and> set (checked_indices items)
           = {i. i < length (materials obj) \<and> use_hide (items ! i)}
         \<and> affected_verts fs (checked_indices items)
           = (\<Union>f \<in> {f \<in> set fs. material_index f < length (materials obj) \<and>
                                  use_hide (items ! material_index f)}.
                set (verts f))"
proof -
  have "\<forall>m\<in>set (materials obj). m \<noteq> None"
    using assms(2) by metis
  then have nn: "filter (\<lambda>m. m \<noteq> None) (materials obj) = materials obj"
    by (rule filter_True)
  have "vrm_hide_materials obj1
        = map (\<lambda>m. \<lparr>material = m, use_hide = True\<rparr>) (materials obj)"
    using assms(4) sync_material_list_mesh [OF assms(1)] nn by auto
  then have mats: "map material items = materials obj"
    using assms(5) by (simp add: comp_def)
  then have len: "length items = length (materials obj)"
    by (metis length_map)
  have some: "\<And>i. i < length items \<Longrightarrow> material (items ! i) \<noteq> None"
  proof -
    fix i assume i: "i < length items"
    then have "material (items ! i) = materials obj ! i"
      using mats by (metis nth_map)
    moreover have "materials obj ! i \<in> set (materials obj)"
      using i len by simp
    ultimately show "material (items ! i) \<noteq> None"
      using assms(2) by metis
  qed
  have chk: "set (checked_indices items)
             = {i. i < length (materials obj) \<and> use_hide (items ! i)}"
    using some len by (auto simp: set_checked_indices)
  have "affected_verts fs (checked_indices items)
        = (\<Union>f \<in> {f \<in> set fs. material_index f < length (materials obj) \<and>
                               use_hide (items ! material_index f)}.
             set (verts f))"
    unfolding affected_verts_eq chk by simp
  moreover have "set (checked_indices items) = checked_material_slots (materials obj) items"
  proof -
    have "\<And>i. i < length items \<Longrightarrow>
            (materials obj ! i \<in> set (map material (filter use_hide items)))
            = use_hide (items ! i)"
    proof -
      fix i assume i: "i < length items"
      have mi: "materials obj ! i = material (items ! i)"
        using i mats by (metis nth_map)
      show "(materials obj ! i \<in> set (map material (filter use_hide items)))
            = use_hide (items ! i)"
      proof
        assume "materials obj ! i \<in> set (map material (filter use_hide items))"
        then obtain item where it: "item \<in> set items" "use_hide item"
            "material item = materials obj ! i"
          by auto
        then obtain j where j: "j < length items" "items ! j = item"
          by (metis in_set_conv_nth)
        then have "materials obj ! j = materials obj ! i"
          using it(3) mats by (metis nth_map)
        then have "j = i"
          using assms(3) i j(1) len by (simp add: nth_eq_iff_index_eq)
        then show "use_hide (items ! i)" using it(2) j(2) by simp
      next
        assume "use_hide (items ! i)"
        then have "items ! i \<in> set (filter use_hide items)" using i by simp
        then show "materials obj ! i \<in> set (map material (filter use_hide items))"
          unfolding mi by (metis image_eqI set_map)
      qed
    qed
    then show ?thesis
      unfolding chk checked_material_slots_def using len by auto
  qed
  ultimately show ?thesis using len mats chk by simp
qed

theorem checked_indices_are_slots_witness:
  "set (checked_indices (vrm_hide_materials quad))
   = checked_material_slots (materials quad) (vrm_hide_materials quad)
   \<and> 0 \<in> set (checked_indices (vrm_hide_materials quad))
   \<and> 1 \<notin> set (checked_indices (vrm_hide_materials quad))
   \<and> map material (vrm_hide_materials quad) = [Some ''M0'', Some ''M1'']
   \<and> 1 \<in> affected_verts (faces quad) (checked_indices (vrm_hide_materials quad))
   \<and> 3 \<notin> affected_verts (faces quad) (checked_indices (vrm_hide_materials quad))"
proof -
  have mesh: "obj_type quad = ''MESH''" by (simp add: quad_def)
  have full: "None \<notin> set (materials quad)" by (simp add: quad_def)
  have dist: "distinct (materials quad)" by (simp add: quad_def)
  let ?obj1 = "quad\<lparr>vrm_hide_materials :=
                     [\<lparr>material = Some ''M0'', use_hide = True\<rparr>,
                      \<lparr>material = Some ''M1'', use_hide = True\<rparr>]\<rparr>"
  have sync: "sync_material_list (Some quad) = Some ?obj1"
    by (simp add: sync_material_list_def quad_def add_item_def)
  have same: "map material (vrm_hide_materials quad) = map material (vrm_hide_materials ?obj1)"
    by (simp add: quad_def)
  note t = checked_indices_are_slots [OF mesh full dist sync same, of "faces quad"]
  have c: "set (checked_indices (vrm_hide_materials quad))
           = {i. i < length (materials quad) \<and> use_hide (vrm_hide_materials quad ! i)}"
    using t by (elim conjE)
  have m: "map material (vrm_hide_materials quad) = materials quad"
    using t by (elim conjE)
  have w0: "set (checked_indices (vrm_hide_materials quad))
            = checked_material_slots (materials quad) (vrm_hide_materials quad)"
    using t by (elim conjE)
  have u: "affected_verts (faces quad) (checked_indices (vrm_hide_materials quad))
           = (\<Union>f \<in> {f \<in> set (faces quad). material_index f < length (materials quad) \<and>
                                  use_hide (vrm_hide_materials quad ! material_index f)}.
                set (verts f))"
    using t by (elim conjE)
  have w1: "0 \<in> set (checked_indices (vrm_hide_materials quad))"
    unfolding c by (simp add: quad_def)
  have w2: "1 \<notin> set (checked_indices (vrm_hide_materials quad))"
    unfolding c by (simp add: quad_def)
  have w3: "map material (vrm_hide_materials quad) = [Some ''M0'', Some ''M1'']"
    unfolding m by (simp add: quad_def)
  have mem: "\<And>v. v \<in> affected_verts (faces quad) (checked_indices (vrm_hide_materials quad))
      \<longleftrightarrow> (\<exists>f\<in>set (faces quad). material_index f < length (materials quad) \<and>
             use_hide (vrm_hide_materials quad ! material_index f) \<and> v \<in> set (verts f))"
    unfolding u by blast
  have w4: "1 \<in> affected_verts (faces quad) (checked_indices (vrm_hide_materials quad))"
    unfolding mem by (simp add: quad_def)
  have w5: "3 \<notin> affected_verts (faces quad) (checked_indices (vrm_hide_materials quad))"
    unfolding mem by (simp add: quad_def)
  from w0 w1 w2 w3 w4 w5 show ?thesis by blast
qed

section \<open>Refreshing the selector\<close>

text \<open>
  Claim C9. On a mesh object the refresh replaces the selector by one entry per non-empty
  material slot, in slot order, each with \<open>use_hide\<close> set; empty slots leave no entry.
  The operator finishes and reports the number of entries; with no material slots the
  selector is empty and the operator still finishes.
\<close>

theorem sync_rebuilds_selector:
  assumes "obj_type obj = ''MESH''"
  shows "sync_material_list (Some obj)
         = Some (obj\<lparr>vrm_hide_materials :=
                       map (\<lambda>m. \<lparr>material = m, use_hide = True\<rparr>)
                           (filter (\<lambda>m. m \<noteq> None) (materials obj))\<rparr>)
         \<and> SyncMaterialsOperator_execute (Some obj)
           = (Return FINISHED
                (INFO, str ''Material list updated: ''
                       @ str (str_nat (length (filter (\<lambda>m. m \<noteq> None) (materials obj))))
                       @ str '' materials found''),
              sync_material_list (Some obj))
         \<and> (materials obj = [] \<longrightarrow>
              sync_material_list (Some obj) = Some (obj\<lparr>vrm_hide_materials := []\<rparr>))"
  using assms
  by (simp add: SyncMaterialsOperator_execute_def sync_material_list_mesh)

theorem sync_rebuilds_selector_witness:
  "sync_material_list (Some (quad\<lparr>materials := [Some ''M0'', None, Some ''M2'']\<rparr>))
   = Some (quad\<lparr>materials := [Some ''M0'', None, Some ''M2''],
                 vrm_hide_materials := [\<lparr>material = Some ''M0'', use_hide = True\<rparr>,
                                        \<lparr>material = Some ''M2'', use_hide = True\<rparr>]\<rparr>)
   \<and> fst (SyncMaterialsOperator_execute (Some (quad\<lparr>materials := []\<rparr>)))
     = Return FINISHED (INFO, str ''Material list updated: 0 materials found'')
   \<and> sync_material_list (Some (quad\<lparr>materials := []\<rparr>))
     = Some (quad\<lparr>materials := [], vrm_hide_materials := []\<rparr>)"
proof -
  let ?gap = "quad\<lparr>materials := [Some ''M0'', None, Some ''M2'']\<rparr>"
  let ?bare = "quad\<lparr>materials := []\<rparr>"
  have m1: "obj_type ?gap = ''MESH''" and m2: "obj_type ?bare = ''MESH''"
    by (simp_all add: quad_def)
  have zero: "str_nat 0 = ''0''" by (simp add: str_nat.simps digit_def)
  have w1: "sync_material_list (Some ?gap)
      = Some (quad\<lparr>materials := [Some ''M0'', None, Some ''M2''],
                    vrm_hide_materials := [\<lparr>material = Some ''M0'', use_hide = True\<rparr>,
                                           \<lparr>material = Some ''M2'', use_hide = True\<rparr>]\<rparr>)"
    using sync_rebuilds_selector [OF m1] by (simp add: quad_def)
  have w2: "fst (SyncMaterialsOperator_execute (Some ?bare))
      = Return FINISHED (INFO, str ''Material list updated: 0 materials found'')"
    using sync_rebuilds_selector [OF m2] by (simp add: zero str_def)
  have w3: "sync_material_list (Some ?bare)
      = Some (quad\<lparr>materials := [], vrm_hide_materials := []\<rparr>)"
    using sync_rebuilds_selector [OF m2] by (simp add: quad_def)
  from w1 w2 w3 show ?thesis by blast
qed

text \<open>
  Claim C10. Refreshing a mesh object twice in a row gives, after the second refresh,
  the selector that the first refresh gave: the same materials in the same order, and
  every \<open>use_hide\<close> set, both times.
\<close>

theorem sync_idempotent:
  assumes "obj_type obj = ''MESH''"
    and "sync_material_list (Some obj) = Some obj1"
    and "sync_material_list (Some obj1) = Some obj2"
  shows "map material (vrm_hide_materials obj2) = map material (vrm_hide_materials obj1)
         \<and> map use_hide (vrm_hide_materials obj1)
           = replicate (length (vrm_hide_materials obj1)) True
         \<and> map use_hide (vrm_hide_materials obj2)
           = replicate (length (vrm_hide_materials obj2)) True
         \<and> obj2 = obj1"
proof -
  let ?sel = "map (\<lambda>m. \<lparr>material = m, use_hide = True\<rparr>)
                  (filter (\<lambda>m. m \<noteq> None) (materials obj))"
  have o1: "obj1 = obj\<lparr>vrm_hide_materials := ?sel\<rparr>"
    using assms(1,2) by (simp add: sync_material_list_mesh)
  have m1: "obj_type obj1 = ''MESH''" using assms(1) o1 by simp
  have "obj2 = obj1\<lparr>vrm_hide_materials :=
                 map (\<lambda>m. \<lparr>material = m, use_hide = True\<rparr>)
                     (filter (\<lambda>m. m \<noteq> None) (materials obj1))\<rparr>"
    using m1 assms(3) by (simp add: sync_material_list_mesh)
  then have eq: "obj2 = obj1" using o1 by simp
  have flags: "map use_hide (vrm_hide_materials obj1)
               = replicate (length (vrm_hide_materials obj1)) True"
    unfolding o1 by (simp add: comp_def map_replicate_const)
  from eq flags show ?thesis by simp
qed

theorem sync_idempotent_witness:
  "sync_material_list (sync_material_list (Some quad)) = sync_material_list (Some quad)
   \<and> map use_hide (vrm_hide_materials (the (sync_material_list (Some quad)))) = [True, True]
   \<and> map material (vrm_hide_materials (the (sync_material_list (Some quad))))
     = [Some ''M0'', Some ''M1'']"
proof -
  let ?obj1 = "quad\<lparr>vrm_hide_materials :=
                     [\<lparr>material = Some ''M0'', use_hide = True\<rparr>,
                      \<lparr>material = Some ''M1'', use_hide = True\<rparr>]\<rparr>"
  have mesh: "obj_type quad = ''MESH''" by (simp add: quad_def)
  have s1: "sync_material_list (Some quad) = Some ?obj1"
    by (simp add: sync_material_list_def quad_def add_item_def)
  have s2: "sync_material_list (Some ?obj1) = Some ?obj1"
    by (simp add: sync_material_list_def quad_def add_item_def)
  from sync_idempotent [OF mesh s1 s2] show ?thesis
    by (simp add: s1 s2)
qed

section \<open>Exact arithmetic\<close>

text \<open>
  For a host whose vector operations are the exact ones (\<open>v_add\<close>, \<open>v_div\<close> over the
  reals), whatever its iteration order, the centroid is the mean over the set of
  affected vertices. This rests on addition being associative and commutative, which an
  arithmetic that rounds is not in general.
\<close>

lemma foldl_v_add:
  "foldl v_add v ps
   = Vector (vx v + sum_list (map vx ps)) (vy v + sum_list (map vy ps))
            (vz v + sum_list (map vz ps))"
proof (induction ps arbitrary: v)
  case Nil
  then show ?case by simp
next
  case (Cons p ps)
  show ?case
    unfolding foldl_Cons Cons.IH by (cases v; cases p) simp
qed

text \<open>In exact arithmetic the centroid is the mean over the set of affected vertices,
  coordinate by coordinate.\<close>

lemma center_exact_mean:
  assumes "set (set_iter h affected) = affected"
    and "distinct (set_iter h affected)"
    and "affected \<noteq> {}"
    and "\<forall>i\<in>affected. i < length orig"
    and "vzero h = Vector 0 0 0" and "vadd h = v_add" and "vdiv h = v_div"
  shows "center h CENTROID orig affected
         = Inr (Vector ((\<Sum>i\<in>affected. vx (orig ! i)) / real (card affected))
                       ((\<Sum>i\<in>affected. vy (orig ! i)) / real (card affected))
                       ((\<Sum>i\<in>affected. vz (orig ! i)) / real (card affected)))"
proof -
  let ?js = "set_iter h affected"
  have rg: "\<forall>i\<in>set ?js. i < length orig" using assms(1,4) by simp
  have card: "length ?js = card affected"
    using distinct_card [OF assms(2)] assms(1) by simp
  have "?js \<noteq> []" using assms(1,3) by auto
  then have pos: "0 < card affected" using card by (metis length_greater_0_conv)
  have sums: "\<And>f :: Vector \<Rightarrow> real.
      sum_list (map f (map ((!) orig) ?js)) = (\<Sum>i\<in>affected. f (orig ! i))"
  proof -
    fix f :: "Vector \<Rightarrow> real"
    have "sum_list (map (\<lambda>i. f (orig ! i)) ?js) = (\<Sum>i\<in>set ?js. f (orig ! i))"
      using assms(2) by (rule sum_list_distinct_conv_sum_set)
    then show "sum_list (map f (map ((!) orig) ?js)) = (\<Sum>i\<in>affected. f (orig ! i))"
      using assms(1) by (simp add: comp_def)
  qed
  have "center h CENTROID orig affected
        = Inr (v_div (foldl v_add (Vector 0 0 0) (map ((!) orig) ?js)) (card affected))"
    using pos card assms(5-7) by (simp add: center_def index_all_in_range [OF rg])
  then show ?thesis
    unfolding foldl_v_add sums by simp
qed


end
